theory Spec2Isabelle
  imports Complex_Main "HOL-Library.List_Lexorder" "HOL-Library.Product_Lexorder"
begin

section \<open>Text\<close>

text \<open>
  A Python \<open>str\<close> is a sequence of Unicode code points, so a text is a list of
  code points.  The Chinese words of the source are written as their code points; each
  abbreviation below names the word it stands for in pinyin.
\<close>

type_synonym ustr = "nat list"

text \<open>
  \<open>str.isspace\<close> and the pattern \<open>\s\<close> hold of the same code points, and
  \<open>\d\<close> of the decimal digits (category Nd), which come in runs of ten
  (Unicode 14.0, the table of CPython 3.11).
\<close>

definition uni_space :: "nat \<Rightarrow> bool" where
  "uni_space c \<longleftrightarrow>
     (0x9 \<le> c \<and> c \<le> 0xD) \<or> (0x1C \<le> c \<and> c \<le> 0x20) \<or> c = 0x85 \<or> c = 0xA0 \<or>
     c = 0x1680 \<or> (0x2000 \<le> c \<and> c \<le> 0x200A) \<or> c = 0x2028 \<or> c = 0x2029 \<or>
     c = 0x202F \<or> c = 0x205F \<or> c = 0x3000"

definition DIGIT_RUNS :: "(nat \<times> nat) list" where
  "DIGIT_RUNS =
     [(0x30, 10), (0x660, 10), (0x6F0, 10), (0x7C0, 10), (0x966, 10), (0x9E6, 10),
      (0xA66, 10), (0xAE6, 10), (0xB66, 10), (0xBE6, 10), (0xC66, 10), (0xCE6, 10),
      (0xD66, 10), (0xDE6, 10), (0xE50, 10), (0xED0, 10), (0xF20, 10), (0x1040, 10),
      (0x1090, 10), (0x17E0, 10), (0x1810, 10), (0x1946, 10), (0x19D0, 10), (0x1A80, 10),
      (0x1A90, 10), (0x1B50, 10), (0x1BB0, 10), (0x1C40, 10), (0x1C50, 10), (0xA620, 10),
      (0xA8D0, 10), (0xA900, 10), (0xA9D0, 10), (0xA9F0, 10), (0xAA50, 10), (0xABF0, 10),
      (0xFF10, 10), (0x104A0, 10), (0x10D30, 10), (0x11066, 10), (0x110F0, 10),
      (0x11136, 10), (0x111D0, 10), (0x112F0, 10), (0x11450, 10), (0x114D0, 10),
      (0x11650, 10), (0x116C0, 10), (0x11730, 10), (0x118E0, 10), (0x11950, 10),
      (0x11C50, 10), (0x11D50, 10), (0x11DA0, 10), (0x16A60, 10), (0x16AC0, 10),
      (0x16B50, 10), (0x1D7CE, 50), (0x1E140, 10), (0x1E2F0, 10), (0x1E950, 10),
      (0x1FBF0, 10)]"

definition uni_digit :: "nat \<Rightarrow> bool" where
  "uni_digit c \<longleftrightarrow> list_ex (\<lambda>r. fst r \<le> c \<and> c < fst r + snd r) DIGIT_RUNS"

definition py_strip :: "ustr \<Rightarrow> ustr" where
  "py_strip s = rev (dropWhile uni_space (rev (dropWhile uni_space s)))"

section \<open>Regular expressions\<close>

text \<open>
  The fragment of Python's \<open>re\<close> that the source's patterns use: literal characters,
  \<open>.\<close> (any character but the newline), \<open>\d\<close>, \<open>\s\<close>, character sets and
  ranges, sequence, alternation, \<open>?\<close>, capturing groups, and greedy \<open>*\<close> and
  \<open>+\<close> over a single character class (the source repeats nothing else).
\<close>

datatype cclass = Lit nat | Dot | Digit | Space | Range nat nat | OneOf "nat list"

fun cmem :: "cclass \<Rightarrow> nat \<Rightarrow> bool" where
  "cmem (Lit c) x \<longleftrightarrow> x = c"
| "cmem Dot x \<longleftrightarrow> x \<noteq> 0xA"
| "cmem Digit x \<longleftrightarrow> uni_digit x"
| "cmem Space x \<longleftrightarrow> uni_space x"
| "cmem (Range a b) x \<longleftrightarrow> a \<le> x \<and> x \<le> b"
| "cmem (OneOf cs) x \<longleftrightarrow> x \<in> set cs"

datatype regex =
    Eps
  | Ch cclass
  | Seq regex regex
  | Alt regex regex
  | Opt regex
  | Star cclass
  | Plus cclass
  | Grp nat regex

type_synonym caps = "(nat \<times> ustr) list"

text \<open>
  \<open>rm r s g\<close> lists every way \<open>r\<close> matches a prefix of \<open>s\<close>, as the rest of the
  text after the match and the groups captured, in the order in which Python's
  backtracking matcher tries them: the left alternative first, the optional part first,
  the longest repetition first.  The head of the list is the match Python reports.
\<close>

fun rm :: "regex \<Rightarrow> ustr \<Rightarrow> caps \<Rightarrow> (ustr \<times> caps) list" where
  "rm Eps s g = [(s, g)]"
| "rm (Ch c) s g = (case s of [] \<Rightarrow> [] | x # xs \<Rightarrow> if cmem c x then [(xs, g)] else [])"
| "rm (Seq a b) s g = concat (map (\<lambda>m. rm b (fst m) (snd m)) (rm a s g))"
| "rm (Alt a b) s g = rm a s g @ rm b s g"
| "rm (Opt a) s g = rm a s g @ [(s, g)]"
| "rm (Star c) s g =
     (case s of [] \<Rightarrow> [] | x # xs \<Rightarrow> if cmem c x then rm (Star c) xs g else []) @ [(s, g)]"
| "rm (Plus c) s g =
     (case s of [] \<Rightarrow> [] | x # xs \<Rightarrow> if cmem c x then rm (Star c) xs g else [])"
| "rm (Grp n a) s g =
     map (\<lambda>m. (fst m, (n, take (length s - length (fst m)) s) # snd m)) (rm a s g)"

text \<open>\<open>re.search\<close>: the match at the leftmost position that has one; its groups.\<close>

fun re_search :: "regex \<Rightarrow> ustr \<Rightarrow> caps option" where
  "re_search r s =
     (case rm r s [] of
        m # _ \<Rightarrow> Some (snd m)
      | [] \<Rightarrow> (case s of [] \<Rightarrow> None | _ # xs \<Rightarrow> re_search r xs))"

text \<open>\<open>m.group(n)\<close>; a group that took no part in the match reads as the empty text
  in a replacement template.\<close>

definition group :: "caps \<Rightarrow> nat \<Rightarrow> ustr" where
  "group g n = (case map_of g n of Some t \<Rightarrow> t | None \<Rightarrow> [])"

text \<open>
  \<open>re.sub(r, template, s)\<close> for the template \<open>\n\<close>: every match, found from left
  to right without overlap, is replaced by its group \<open>n\<close>.  A match of the empty text
  is replaced and the next character copied; the pattern the source passes cannot
  match the empty text.
\<close>

function re_sub :: "regex \<Rightarrow> nat \<Rightarrow> ustr \<Rightarrow> ustr" where
  "re_sub r n s =
     (case rm r s [] of
        m # _ \<Rightarrow>
          if length (fst m) < length s then group (snd m) n @ re_sub r n (fst m)
          else group (snd m) n @ (case s of [] \<Rightarrow> [] | x # xs \<Rightarrow> x # re_sub r n xs)
      | [] \<Rightarrow> (case s of [] \<Rightarrow> [] | x # xs \<Rightarrow> x # re_sub r n xs))"
  by pat_completeness auto
termination
  by (relation "measure (\<lambda>(r, n, s). length s)") auto

text \<open>\<open>re.split\<close> on a pattern that is one character class.\<close>

fun re_split :: "cclass \<Rightarrow> ustr \<Rightarrow> ustr list" where
  "re_split c [] = [[]]"
| "re_split c (x # xs) =
     (if cmem c x then [] # re_split c xs
      else (case re_split c xs of p # ps \<Rightarrow> (x # p) # ps | [] \<Rightarrow> [[x]]))"

text \<open>A literal word, and a sequence of parts.\<close>

definition lit :: "ustr \<Rightarrow> regex" where
  "lit w = foldr (\<lambda>c r. Seq (Ch (Lit c)) r) w Eps"

definition seqs :: "regex list \<Rightarrow> regex" where
  "seqs rs = foldr Seq rs Eps"

section \<open>Canonical product names\<close>

abbreviation w_baise_fenmo :: ustr where
  "w_baise_fenmo \<equiv> [0x767D, 0x8272, 0x7C89, 0x672B]"
abbreviation w_jinhuangse_fenmo :: ustr where
  "w_jinhuangse_fenmo \<equiv> [0x91D1, 0x9EC4, 0x8272, 0x7C89, 0x672B]"
abbreviation w_shenhuangse_fenmo :: ustr where
  "w_shenhuangse_fenmo \<equiv> [0x6DF1, 0x9EC4, 0x8272, 0x7C89, 0x672B]"
abbreviation w_qianhuangse_fenmo :: ustr where
  "w_qianhuangse_fenmo \<equiv> [0x6D45, 0x9EC4, 0x8272, 0x7C89, 0x672B]"
abbreviation w_zongse :: ustr where
  "w_zongse \<equiv> [0x68D5, 0x8272]"
abbreviation w_T :: ustr where
  "w_T \<equiv> [0x54]"
abbreviation w_tian :: ustr where
  "w_tian \<equiv> [0x751C]"
abbreviation w_baipi :: ustr where
  "w_baipi \<equiv> [0x767D, 0x76AE]"
abbreviation w_youlefen :: ustr where
  "w_youlefen \<equiv> [0x4F18, 0x4E50, 0x7C89]"
abbreviation w_youmeifen :: ustr where
  "w_youmeifen \<equiv> [0x4F18, 0x9541, 0x7C89]"
abbreviation w_xinpeifang :: ustr where
  "w_xinpeifang \<equiv> [0x65B0, 0x914D, 0x65B9]"
abbreviation w_0hao :: ustr where
  "w_0hao \<equiv> [0x30, 0x53F7]"
abbreviation w_1hao :: ustr where
  "w_1hao \<equiv> [0x31, 0x53F7]"
abbreviation w_2hao :: ustr where
  "w_2hao \<equiv> [0x32, 0x53F7]"
abbreviation c_dun :: nat where
  "c_dun \<equiv> 0x5428"

text \<open>The target names: white, sweet white, white (baipi), white youlefen, golden
  no. 1 and no. 2, deep yellow, sweet deep yellow, light yellow, brown no. 1 and no. 2.\<close>

abbreviation n_white :: ustr where
  "n_white \<equiv> [0x767D, 0x8272, 0x7C89, 0x672B, 0x4F18, 0x9541, 0x7C89]"
abbreviation n_white_sweet :: ustr where
  "n_white_sweet \<equiv> [0x767D, 0x8272, 0x7C89, 0x672B, 0x751C, 0x5473, 0x4F18, 0x9541, 0x7C89]"
abbreviation n_white_baipi :: ustr where
  "n_white_baipi \<equiv> [0x767D, 0x8272, 0x7C89, 0x672B, 0xFF08, 0x767D, 0x76AE, 0xFF09]"
abbreviation n_white_youle :: ustr where
  "n_white_youle \<equiv> [0x767D, 0x8272, 0x7C89, 0x672B, 0x4F18, 0x4E50, 0x7C89]"
abbreviation n_gold1 :: ustr where
  "n_gold1 \<equiv> [0x91D1, 0x9EC4, 0x8272, 0x7C89, 0x672B, 0x4F18, 0x9541, 0x7C89, 0x31, 0x53F7]"
abbreviation n_gold2 :: ustr where
  "n_gold2 \<equiv> [0x91D1, 0x9EC4, 0x8272, 0x7C89, 0x672B, 0x4F18, 0x9541, 0x7C89, 0x32, 0x53F7]"
abbreviation n_deep :: ustr where
  "n_deep \<equiv> [0x6DF1, 0x9EC4, 0x8272, 0x7C89, 0x672B, 0x4F18, 0x9541, 0x7C89]"
abbreviation n_deep_sweet :: ustr where
  "n_deep_sweet \<equiv> [0x6DF1, 0x9EC4, 0x8272, 0x7C89, 0x672B, 0x751C, 0x5473, 0x4F18, 0x9541, 0x7C89]"
abbreviation n_light :: ustr where
  "n_light \<equiv> [0x6D45, 0x9EC4, 0x8272, 0x7C89, 0x672B, 0x4F18, 0x9541, 0x7C89]"
abbreviation n_brown1 :: ustr where
  "n_brown1 \<equiv> [0x68D5, 0x8272, 0x31, 0x53F7, 0x4F18, 0x9541, 0x7C89]"
abbreviation n_brown2 :: ustr where
  "n_brown2 \<equiv> [0x68D5, 0x8272, 0x32, 0x53F7, 0x4F18, 0x9541, 0x7C89]"

definition RULES :: "(regex \<times> ustr) list" where
  "RULES =
    [(seqs [lit w_baise_fenmo, Star Dot, Grp 1 (Alt (lit w_T) (lit w_tian)), Star Dot],
        n_white_sweet),
     (seqs [lit w_baise_fenmo, Star Dot, Grp 1 (lit w_baipi), Star Dot], n_white_baipi),
     (seqs [lit w_baise_fenmo, Star Dot, Grp 1 (lit w_youlefen), Star Dot], n_white_youle),
     (seqs [lit w_baise_fenmo, Star Dot, lit w_youmeifen, Star Dot], n_white),
     (seqs [lit w_baise_fenmo, Star Dot], n_white),
     (seqs [lit w_jinhuangse_fenmo, Star Dot, Grp 1 (lit w_xinpeifang), Star Dot], n_gold2),
     (seqs [lit w_jinhuangse_fenmo, Star Dot, lit w_1hao, Star Dot], n_gold1),
     (seqs [lit w_jinhuangse_fenmo, Star Dot, lit w_2hao, Star Dot], n_gold2),
     (seqs [lit w_jinhuangse_fenmo, Star Dot, lit w_youmeifen, Star Dot], n_gold1),
     (seqs [lit w_jinhuangse_fenmo, Star Dot], n_gold1),
     (seqs [lit w_shenhuangse_fenmo, Star Dot, Grp 1 (Alt (lit w_T) (lit w_tian)), Star Dot],
        n_deep_sweet),
     (seqs [lit w_shenhuangse_fenmo, Star Dot, lit w_youmeifen, Star Dot], n_deep),
     (seqs [lit w_shenhuangse_fenmo, Star Dot], n_deep),
     (seqs [lit w_qianhuangse_fenmo, Star Dot], n_light),
     (seqs [lit w_zongse, Star Dot, lit w_1hao, Star Dot], n_brown1),
     (seqs [lit w_zongse, Star Dot, Grp 1 (Alt (lit w_0hao) (lit w_2hao)), Star Dot],
        n_brown2)]"

definition PREFERRED_ORDER :: "ustr list" where
  "PREFERRED_ORDER =
     [n_white, n_white_sweet, n_white_baipi, n_gold1, n_gold2,
      n_deep, n_deep_sweet, n_light, n_brown1, n_brown2]"

definition PALETTE :: "string list" where
  "PALETTE =
     [''#FAD7A0'', ''#AED6F1'', ''#A9DFBF'', ''#F5B7B1'', ''#D7BDE2'',
      ''#F9E79F'', ''#85C1E9'', ''#ABEBC6'', ''#F8C471'', ''#F5CBA7'']"

section \<open>normalize_product\<close>

text \<open>
  A cell of a table, as far as the program distinguishes cells: a missing value
  (\<open>None\<close>, or the \<open>NaN\<close> that an empty cell is read as) or a text.  \<open>str\<close> of a
  missing value is the text \<open>None\<close> or \<open>nan\<close>.
\<close>

datatype pyval = PyNone | PyNaN | PyStr ustr

fun py_str :: "pyval \<Rightarrow> ustr" where
  "py_str PyNone = [0x4E, 0x6F, 0x6E, 0x65]"
| "py_str PyNaN = [0x6E, 0x61, 0x6E]"
| "py_str (PyStr s) = s"

text \<open>The pattern that cuts a tonnage suffix after \<open>baipi\<close>:
  an optional full-width bracket, \<open>baipi\<close>, an optional closing bracket (group 1),
  blanks, a number, blanks, the character \<open>dun\<close> (ton), and the rest of the line.\<close>

definition SUFFIX_PATTERN :: regex where
  "SUFFIX_PATTERN =
     seqs [Grp 1 (seqs [Opt (Ch (Lit 0xFF08)), lit w_baipi, Opt (Ch (Lit 0xFF09))]),
           Star Space, Plus Digit, Opt (Grp 2 (seqs [Ch (Lit 0x2E), Plus Digit])),
           Star Space, Ch (Lit c_dun), Star Dot]"

fun first_match :: "(regex \<times> ustr) list \<Rightarrow> ustr \<Rightarrow> ustr option" where
  "first_match [] s = None"
| "first_match ((pattern, target) # rules) s =
     (if re_search pattern s \<noteq> None then Some target else first_match rules s)"

definition clean :: "pyval \<Rightarrow> ustr" where
  "clean name = re_sub SUFFIX_PATTERN 1 (py_strip (py_str name))"

definition normalize_product :: "pyval \<Rightarrow> ustr option" where
  "normalize_product name = first_match RULES (clean name)"

text \<open>The value \<open>normalize_product\<close> returns, as a Python value: \<open>None\<close> or the
  target text.\<close>

fun result_val :: "ustr option \<Rightarrow> pyval" where
  "result_val None = PyNone"
| "result_val (Some t) = PyStr t"

text \<open>The names that occur as the target of a rule: the ten preferred names and
  white youlefen.\<close>

definition TARGETS :: "ustr list" where
  "TARGETS = PREFERRED_ORDER @ [n_white_youle]"

section \<open>Dates and timestamps\<close>

text \<open>
  A \<open>date\<close> is a number of days and a pandas \<open>Timestamp\<close> a number of nanoseconds,
  both counted from 1970-01-01; a missing timestamp (\<open>NaT\<close>) is \<open>None\<close>.  The date
  columns of the tracking table are taken as \<open>pd.to_datetime\<close> with
  \<open>errors="coerce"\<close> reads them.
\<close>

type_synonym date = int
type_synonym timestamp = int

definition NS_PER_DAY :: int where
  "NS_PER_DAY = 86400000000000"

definition to_datetime :: "date \<Rightarrow> timestamp" where
  "to_datetime d = d * NS_PER_DAY"

definition normalize :: "timestamp \<Rightarrow> timestamp" where
  "normalize t = (t div NS_PER_DAY) * NS_PER_DAY"

definition date_of :: "timestamp \<Rightarrow> date" where
  "date_of t = t div NS_PER_DAY"

definition td_days :: "int \<Rightarrow> int" where
  "td_days delta = delta div NS_PER_DAY"

text \<open>Comparison of a column with a timestamp: a missing value compares false.\<close>

fun ge_ts :: "timestamp option \<Rightarrow> timestamp \<Rightarrow> bool" where
  "ge_ts None t \<longleftrightarrow> False"
| "ge_ts (Some x) t \<longleftrightarrow> x \<ge> t"

fun le_ts :: "timestamp option \<Rightarrow> timestamp \<Rightarrow> bool" where
  "le_ts None t \<longleftrightarrow> False"
| "le_ts (Some x) t \<longleftrightarrow> x \<le> t"

text \<open>
  \<open>a or b\<close> on two cells that hold timestamps.  Python's \<open>or\<close> yields \<open>a\<close> unless
  \<open>a\<close> is falsy, and neither a \<open>Timestamp\<close> nor \<open>pd.NaT\<close> is falsy (they are
  \<open>datetime\<close> objects, which have no false value), so \<open>b\<close> is never chosen.
\<close>

definition truthy_ts :: "timestamp option \<Rightarrow> bool" where
  "truthy_ts a \<longleftrightarrow> True"

definition or_ts :: "timestamp option \<Rightarrow> timestamp option \<Rightarrow> timestamp option" where
  "or_ts a b = (if truthy_ts a then a else b)"

text \<open>\<open>a or b\<close> on two cells: \<open>None\<close> and the empty text are falsy, \<open>NaN\<close> is not.\<close>

fun truthy :: "pyval \<Rightarrow> bool" where
  "truthy PyNone \<longleftrightarrow> False"
| "truthy PyNaN \<longleftrightarrow> True"
| "truthy (PyStr s) \<longleftrightarrow> s \<noteq> []"

definition py_or :: "pyval \<Rightarrow> pyval \<Rightarrow> pyval" where
  "py_or a b = (if truthy a then a else b)"

text \<open>The civil date of a day number (proleptic Gregorian calendar), and
  \<open>strftime('%Y-%m-%d')\<close>.\<close>

definition doe_of :: "date \<Rightarrow> int" where
  "doe_of days = (days + 719468) - ((days + 719468) div 146097) * 146097"

definition yoe_of :: "date \<Rightarrow> int" where
  "yoe_of days =
     (doe_of days - doe_of days div 1460 + doe_of days div 36524 - doe_of days div 146096)
       div 365"

definition doy_of :: "date \<Rightarrow> int" where
  "doy_of days = doe_of days - (365 * yoe_of days + yoe_of days div 4 - yoe_of days div 100)"

definition mp_of :: "date \<Rightarrow> int" where
  "mp_of days = (5 * doy_of days + 2) div 153"

definition month_of :: "date \<Rightarrow> int" where
  "month_of days = (if mp_of days < 10 then mp_of days + 3 else mp_of days - 9)"

definition day_of :: "date \<Rightarrow> int" where
  "day_of days = doy_of days - (153 * mp_of days + 2) div 5 + 1"

definition year_of :: "date \<Rightarrow> int" where
  "year_of days =
     yoe_of days + ((days + 719468) div 146097) * 400 + (if month_of days \<le> 2 then 1 else 0)"

definition ymd :: "date \<Rightarrow> int \<times> int \<times> int" where
  "ymd days = (year_of days, month_of days, day_of days)"

function dec :: "nat \<Rightarrow> ustr" where
  "dec n = (if n < 10 then [0x30 + n] else dec (n div 10) @ [0x30 + n mod 10])"
  by pat_completeness auto
termination
  by (relation "measure (\<lambda>n. n)") auto

declare dec.simps [simp del]

definition py_str_int :: "int \<Rightarrow> ustr" where
  "py_str_int i = (if i < 0 then 0x2D # dec (nat (- i)) else dec (nat i))"

definition zpad :: "nat \<Rightarrow> ustr \<Rightarrow> ustr" where
  "zpad n s = replicate (n - length s) 0x30 @ s"

definition strftime_ymd :: "date \<Rightarrow> ustr" where
  "strftime_ymd d =
     (case ymd d of (y, m, dd) \<Rightarrow>
        zpad 4 (dec (nat y)) @ [0x2D] @ zpad 2 (dec (nat m)) @ [0x2D] @ zpad 2 (dec (nat dd)))"

section \<open>split_product_items\<close>

text \<open>
  Quantities are Python floats in the source: \<open>float\<close> rounds the decimal text to
  binary64, and the group-by sums add such numbers with a compensated sum.  The model
  keeps the exact decimal value that the text denotes and adds exactly.  It agrees with
  the source where the quantities and all their partial sums are exact in binary64, as
  for the whole numbers of tons in the examples below; no statement about the last bits
  of a sum, or about the order of two sums that differ by rounding, is made from it.
\<close>

datatype error = ValueError | KeyError

text \<open>A row of the tracking table (after the warehouse filter) and an extracted
  item.  \<open>t_service\<close> is the cell of the alternative warehouse column that the
  source falls back to; it is \<open>PyNone\<close> when the table has no such column.\<close>

record track_row =
  t_product :: pyval
  t_container :: pyval
  t_ship :: "timestamp option"
  t_eta_port :: "timestamp option"
  t_eta_dest :: "timestamp option"
  t_warehouse :: pyval
  t_service :: pyval
  t_carrier :: pyval

record item =
  i_container :: pyval
  i_raw_name :: ustr
  i_product :: ustr
  i_qty :: rat
  i_ship :: "timestamp option"
  i_eta_port :: "timestamp option"
  i_eta_dest :: "timestamp option"
  i_warehouse :: pyval
  i_carrier :: pyval

text \<open>The quantity pattern: ASCII digits, an optional fraction (group 1), blanks and
  the character \<open>dun\<close>.\<close>

definition QTY_PATTERN :: regex where
  "QTY_PATTERN =
     seqs [Grp 1 (seqs [Plus (Range 0x30 0x39),
                        Opt (Grp 2 (seqs [Ch (Lit 0x2E), Plus (Range 0x30 0x39)]))]),
           Star Space, Ch (Lit c_dun)]"

text \<open>
  \<open>float\<close> of an unsigned decimal text: ASCII digits, optionally a point and more
  digits.  That is every text that group 1 of the quantity pattern can hold; on any
  other text the model answers \<open>None\<close>, which the caller turns into \<open>ValueError\<close>.
\<close>

definition is_digits :: "ustr \<Rightarrow> bool" where
  "is_digits t \<longleftrightarrow> t \<noteq> [] \<and> list_all (\<lambda>c. 0x30 \<le> c \<and> c \<le> 0x39) t"

definition digits_val :: "ustr \<Rightarrow> nat" where
  "digits_val t = foldl (\<lambda>a c. 10 * a + (c - 0x30)) 0 t"

definition py_float :: "ustr \<Rightarrow> rat option" where
  "py_float t =
     (let ip = takeWhile (\<lambda>c. c \<noteq> 0x2E) t; fp = drop (length ip + 1) t in
      if length ip = length t then
        (if is_digits ip then Some (of_nat (digits_val ip)) else None)
      else if is_digits ip \<and> is_digits fp then
        Some (of_nat (digits_val ip) + of_nat (digits_val fp) / 10 ^ length fp)
      else None)"

fun split_parts :: "track_row \<Rightarrow> ustr list \<Rightarrow> error + item list" where
  "split_parts row [] = Inr []"
| "split_parts row (p0 # parts) =
     (let p = py_strip p0 in
      case re_search QTY_PATTERN p of
        None \<Rightarrow> split_parts row parts
      | Some m \<Rightarrow>
          (case py_float (group m 1) of
             None \<Rightarrow> Inl ValueError
           | Some qty \<Rightarrow>
               (case normalize_product (PyStr p) of
                  None \<Rightarrow> split_parts row parts
                | Some base \<Rightarrow>
                    (case split_parts row parts of
                       Inl e \<Rightarrow> Inl e
                     | Inr items \<Rightarrow>
                         Inr (\<lparr>i_container = t_container row, i_raw_name = p,
                               i_product = base, i_qty = qty, i_ship = t_ship row,
                               i_eta_port = t_eta_port row, i_eta_dest = t_eta_dest row,
                               i_warehouse = py_or (t_warehouse row) (t_service row),
                               i_carrier = t_carrier row\<rparr> # items)))))"

definition split_product_items :: "track_row \<Rightarrow> error + item list" where
  "split_product_items row =
     split_parts row (re_split (OneOf [0x2B, 0x2C, 0xFF0C]) (py_str (t_product row)))"

text \<open>The loop that collects the items of all rows.\<close>

fun item_rows :: "track_row list \<Rightarrow> error + item list" where
  "item_rows [] = Inr []"
| "item_rows (r # rs) =
     (case split_product_items r of
        Inl e \<Rightarrow> Inl e
      | Inr xs \<Rightarrow> (case item_rows rs of Inl e \<Rightarrow> Inl e | Inr ys \<Rightarrow> Inr (xs @ ys)))"

section \<open>The inventory summary\<close>

text \<open>A row of the stock table; an empty number cell is \<open>None\<close> (\<open>NaN\<close>).\<close>

record stock_row =
  s_product :: pyval
  s_actual :: "rat option"
  s_recorded :: "rat option"
  s_note :: pyval

abbreviation n_brown0 :: ustr where
  "n_brown0 \<equiv> [0x68D5, 0x8272, 0x30, 0x53F7, 0x4F18, 0x9541, 0x7C89]"

text \<open>The name a stock row is filed under: \<open>normalize_product(x) or str(x)\<close>, then
  brown no. 0 renamed to brown no. 2.\<close>

definition stock_name :: "pyval \<Rightarrow> ustr" where
  "stock_name x =
     (let n = (case normalize_product x of
                 Some t \<Rightarrow> if t \<noteq> [] then t else py_str x
               | None \<Rightarrow> py_str x)
      in if n = n_brown0 then n_brown2 else n)"

definition nan_sum :: "rat option list \<Rightarrow> rat" where
  "nan_sum vs = sum_list (map (\<lambda>v. case v of None \<Rightarrow> 0 | Some x \<Rightarrow> x) vs)"

fun join :: "ustr \<Rightarrow> ustr list \<Rightarrow> ustr" where
  "join sep [] = []"
| "join sep [x] = x"
| "join sep (x # y # ys) = x @ sep @ join sep (y # ys)"

fun notna :: "pyval \<Rightarrow> bool" where
  "notna (PyStr s) \<longleftrightarrow> True"
| "notna v \<longleftrightarrow> False"

definition join_notes :: "pyval list \<Rightarrow> ustr" where
  "join_notes notes = take 200 (join [0xFF1B] (map py_str (filter notna notes)))"

record stock_group =
  g_product :: ustr
  g_actual :: rat
  g_recorded :: rat
  g_note :: ustr

text \<open>The stock table after renaming, the restriction to the canonical names and
  the group-by, whose keys come out sorted.\<close>

definition stock_df :: "stock_row list \<Rightarrow> stock_group list" where
  "stock_df rows =
     (let kept = filter (\<lambda>r. stock_name (s_product r) \<in> set PREFERRED_ORDER) rows in
      map (\<lambda>k. let grp = filter (\<lambda>r. stock_name (s_product r) = k) kept in
                \<lparr>g_product = k, g_actual = nan_sum (map s_actual grp),
                 g_recorded = nan_sum (map s_recorded grp),
                 g_note = join_notes (map s_note grp)\<rparr>)
          (sort (remdups (map (\<lambda>r. stock_name (s_product r)) kept))))"

text \<open>The items in transit: the arrival at the destination is missing or not before
  today.  A table of no items has no columns, and selecting the arrival column from it
  raises \<open>KeyError\<close>.\<close>

definition in_transit :: "timestamp \<Rightarrow> item \<Rightarrow> bool" where
  "in_transit today_ts r \<longleftrightarrow> i_eta_dest r = None \<or> ge_ts (i_eta_dest r) today_ts"

definition intransit_df :: "date \<Rightarrow> item list \<Rightarrow> error + item list" where
  "intransit_df today items =
     (if items = [] then Inl KeyError
      else Inr (filter (in_transit (to_datetime today)) items))"

abbreviation w_zhuanghuo_riqi :: ustr where
  "w_zhuanghuo_riqi \<equiv> [0x88C5, 0x8D27, 0x65E5, 0x671F]"

definition label_for :: "item \<Rightarrow> ustr option" where
  "label_for row =
     (let ship = i_ship row; eta_port = or_ts (i_eta_port row) (i_eta_dest row) in
      case ship of
        None \<Rightarrow> None
      | Some s \<Rightarrow>
          (case eta_port of
             None \<Rightarrow> None
           | Some e \<Rightarrow>
               (let days = td_days (normalize e - normalize s) in
                Some (w_zhuanghuo_riqi @ strftime_ymd (date_of s) @ [0xFF08] @
                      py_str_int days @ [0x5929, 0x5230, 0xFF09]))))"

text \<open>Sums of quantities per product, one per group of the group-by, in exact
  arithmetic.\<close>

definition qty_sum :: "ustr \<Rightarrow> item list \<Rightarrow> rat" where
  "qty_sum p xs = sum_list (map i_qty (filter (\<lambda>r. i_product r = p) xs))"

definition group_keys :: "item list \<Rightarrow> ustr list" where
  "group_keys xs = sort (remdups (map i_product xs))"

definition intransit_sum :: "item list \<Rightarrow> (ustr \<times> rat) list" where
  "intransit_sum xs = map (\<lambda>p. (p, qty_sum p xs)) (group_keys xs)"

definition eta_col :: "item \<Rightarrow> timestamp option" where
  "eta_col r = (case i_eta_dest r of Some t \<Rightarrow> Some t | None \<Rightarrow> i_eta_port r)"

definition arrive_by_cutoff :: "date \<Rightarrow> item list \<Rightarrow> (ustr \<times> rat) list" where
  "arrive_by_cutoff cutoff xs =
     (let sel = filter (\<lambda>r. le_ts (eta_col r) (to_datetime cutoff)) xs in
      map (\<lambda>p. (p, qty_sum p sel)) (group_keys sel))"

text \<open>The label table: one row per product that has a labelled item, one column per
  label, the columns ordered by the ship date inside the label.\<close>

definition KEY_PATTERN :: regex where
  "KEY_PATTERN =
     seqs [lit w_zhuanghuo_riqi,
           Grp 1 (seqs [Ch Digit, Ch Digit, Ch Digit, Ch Digit, Ch (Lit 0x2D),
                        Ch Digit, Ch Digit, Ch (Lit 0x2D), Ch Digit, Ch Digit])]"

definition label_key :: "ustr \<Rightarrow> ustr" where
  "label_key c =
     (case re_search KEY_PATTERN c of
        Some m \<Rightarrow> group m 1
      | None \<Rightarrow> [0x39, 0x39, 0x39, 0x39, 0x2D, 0x39, 0x39, 0x2D, 0x39, 0x39])"

definition labelled :: "item list \<Rightarrow> item list" where
  "labelled xs = filter (\<lambda>r. label_for r \<noteq> None) xs"

definition lab_columns :: "item list \<Rightarrow> ustr list" where
  "lab_columns xs = sort_key label_key (sort (remdups (List.map_filter label_for xs)))"

definition lab_cell :: "item list \<Rightarrow> ustr \<Rightarrow> ustr \<Rightarrow> rat" where
  "lab_cell xs p l =
     sum_list (map i_qty (filter (\<lambda>r. i_product r = p \<and> label_for r = Some l) xs))"

definition lookup0 :: "(ustr \<times> rat) list \<Rightarrow> ustr \<Rightarrow> rat" where
  "lookup0 tbl p = (case map_of tbl p of Some v \<Rightarrow> v | None \<Rightarrow> 0)"

fun index_of :: "'a list \<Rightarrow> 'a \<Rightarrow> nat option" where
  "index_of [] y = None"
| "index_of (x # xs) y = (if x = y then Some 0 else map_option Suc (index_of xs y))"

definition order_key :: "ustr \<Rightarrow> nat" where
  "order_key p = (case index_of PREFERRED_ORDER p of Some i \<Rightarrow> i | None \<Rightarrow> 9999)"

record summary_row =
  r_product :: ustr
  r_actual :: rat
  r_labels :: "(ustr \<times> rat option) list"
  r_in_transit :: rat
  r_arrive :: rat
  r_projected :: rat
  r_recorded :: rat
  r_note :: ustr

text \<open>
  One row of the merged table for the product \<open>p\<close>: the stock group or zeros, the
  label cells (missing for a product with no labelled item), the in-transit total, the
  arrivals by the cutoff, and their sum with the actual stock.
\<close>

definition summary_row_of ::
    "stock_group list \<Rightarrow> item list \<Rightarrow> date \<Rightarrow> ustr \<Rightarrow> summary_row" where
  "summary_row_of st xs cutoff p =
     (let g = find (\<lambda>g. g_product g = p) st;
          actual = (case g of Some g \<Rightarrow> g_actual g | None \<Rightarrow> 0);
          arrive = lookup0 (arrive_by_cutoff cutoff xs) p
      in \<lparr>r_product = p,
          r_actual = actual,
          r_labels = map (\<lambda>l. (l, if p \<in> set (group_keys (labelled xs))
                                   then Some (lab_cell xs p l) else None))
                         (lab_columns xs),
          r_in_transit = lookup0 (intransit_sum xs) p,
          r_arrive = arrive,
          r_projected = actual + arrive,
          r_recorded = (case g of Some g \<Rightarrow> g_recorded g | None \<Rightarrow> 0),
          r_note = (case g of Some g \<Rightarrow> g_note g | None \<Rightarrow> [])\<rparr>)"

text \<open>The outer merge of the stock groups with the label table, restricted to the
  canonical names and put in their preferred order.\<close>

definition summary_rows :: "stock_row list \<Rightarrow> item list \<Rightarrow> date \<Rightarrow> summary_row list" where
  "summary_rows stock xs cutoff =
     (let st = stock_df stock;
          keys = sort (remdups (map g_product st @ group_keys (labelled xs)));
          rows = map (summary_row_of st xs cutoff) keys
      in sort_key (\<lambda>r. (order_key (r_product r), r_product r))
           (filter (\<lambda>r. r_product r \<in> set PREFERRED_ORDER) rows))"

definition summary_df ::
    "stock_row list \<Rightarrow> track_row list \<Rightarrow> date \<Rightarrow> date \<Rightarrow> error + summary_row list" where
  "summary_df stock track today cutoff =
     (case item_rows track of
        Inl e \<Rightarrow> Inl e
      | Inr items \<Rightarrow>
          (case intransit_df today items of
             Inl e \<Rightarrow> Inl e
           | Inr xs \<Rightarrow> Inr (summary_rows stock xs cutoff)))"

section \<open>Calendar events\<close>

record event =
  e_start :: date
  e_end :: date
  e_datestr :: ustr
  e_days :: int
  e_qty :: rat
  e_carrier :: pyval
  e_warehouse :: pyval
  e_container :: pyval

text \<open>The body of the loop over the in-transit items of one product; \<open>None\<close> is
  \<open>continue\<close>.\<close>

definition event_of :: "date \<Rightarrow> date \<Rightarrow> item \<Rightarrow> event option" where
  "event_of window_start window_end r =
     (let s_ts = i_ship r; e_ts = or_ts (i_eta_dest r) (i_eta_port r) in
      case s_ts of
        None \<Rightarrow> None
      | Some s \<Rightarrow>
          (let e = (case e_ts of None \<Rightarrow> s + 7 * NS_PER_DAY | Some e \<Rightarrow> e);
               start_full = date_of (normalize s);
               end_full = date_of (normalize e);
               s' = max start_full window_start;
               e' = min end_full window_end
           in if s' > e' then None
              else Some \<lparr>e_start = s', e_end = e',
                         e_datestr = strftime_ymd start_full @ [0x20, 0x7E, 0x20] @
                                     strftime_ymd end_full,
                         e_days = end_full - start_full + 1,
                         e_qty = (if i_qty r \<noteq> 0 then i_qty r else 0),
                         e_carrier = py_or (i_carrier r) (PyStr []),
                         e_warehouse = py_or (i_warehouse r) (PyStr []),
                         e_container = py_or (i_container r) (PyStr [])\<rparr>))"

definition make_events_for_product :: "item list \<Rightarrow> ustr \<Rightarrow> date \<Rightarrow> int \<Rightarrow> event list" where
  "make_events_for_product xs product window_start days =
     (let window_end = window_start + (days - 1) in
      List.map_filter (event_of window_start window_end)
        (filter (\<lambda>r. i_product r = product) xs))"

section \<open>Carrier colours\<close>

text \<open>The distinct carriers of the in-transit items, missing values dropped, in the
  order of their first appearance.\<close>

fun carrier_names :: "item list \<Rightarrow> ustr list" where
  "carrier_names [] = []"
| "carrier_names (r # rs) =
     (case i_carrier r of PyStr c \<Rightarrow> c # carrier_names rs | _ \<Rightarrow> carrier_names rs)"

definition unique :: "'a list \<Rightarrow> 'a list" where
  "unique xs = rev (remdups (rev xs))"

definition carriers :: "item list \<Rightarrow> ustr list" where
  "carriers xs = unique (carrier_names xs)"

definition color_map :: "item list \<Rightarrow> (ustr \<times> string) list" where
  "color_map xs =
     (let cs = sort (carriers xs) in
      map (\<lambda>i. (cs ! i, PALETTE ! (i mod length PALETTE))) [0..<length cs])"

text \<open>\<open>color_map.get(key, default)\<close>; the keys of the map are texts, so \<open>NaN\<close> is
  not among them.\<close>

definition color_get :: "(ustr \<times> string) list \<Rightarrow> pyval \<Rightarrow> string \<Rightarrow> string" where
  "color_get cm key dflt =
     (case key of
        PyStr c \<Rightarrow> (case map_of cm c of Some v \<Rightarrow> v | None \<Rightarrow> dflt)
      | _ \<Rightarrow> dflt)"

definition bar_color :: "(ustr \<times> string) list \<Rightarrow> event \<Rightarrow> string" where
  "bar_color cm ev = color_get cm (e_carrier ev) ''#e8e8e8''"

section \<open>Example inputs\<close>

text \<open>An item with every optional field missing, from which the examples below are
  built; 19783 is 2024-03-01 and 19787 is 2024-03-05.\<close>

definition item0 :: item where
  "item0 = \<lparr>i_container = PyNaN, i_raw_name = n_white, i_product = n_white, i_qty = 20,
     i_ship = None, i_eta_port = None, i_eta_dest = None, i_warehouse = PyNaN,
     i_carrier = PyNaN\<rparr>"

text \<open>An item shipped on 2024-03-01 that arrives at the destination on 2024-03-05 and
  has no port arrival.\<close>

definition port_missing :: item where
  "port_missing = item0\<lparr>i_ship := Some (to_datetime 19783),
     i_eta_dest := Some (to_datetime 19787)\<rparr>"

text \<open>An item shipped on 2024-01-01 (day 19723) whose arrival at the port is
  2024-01-10 (day 19732) and whose arrival at the destination is missing.\<close>

definition port_only :: item where
  "port_only = item0\<lparr>i_ship := Some (to_datetime 19723),
     i_eta_port := Some (to_datetime 19732)\<rparr>"

text \<open>Items of the carriers A and B.\<close>

definition carrier_A :: item where
  "carrier_A = item0\<lparr>i_carrier := PyStr [0x41]\<rparr>"

definition carrier_B :: item where
  "carrier_B = item0\<lparr>i_carrier := PyStr [0x42]\<rparr>"

text \<open>A tracking row of 20 tons of the plain white product that arrives at the
  destination on 2024-03-10 (day 19792) at 14:00, and a stock row of 100 tons of the
  same product.\<close>

definition late_row :: track_row where
  "late_row = \<lparr>t_product = PyStr (n_white @ [0x32, 0x30, c_dun]),
     t_container = PyNaN, t_ship = None, t_eta_port = None,
     t_eta_dest = Some (to_datetime 19792 + 50400000000000),
     t_warehouse = PyNaN, t_service = PyNone, t_carrier = PyNaN\<rparr>"

definition stock_white :: stock_row where
  "stock_white = \<lparr>s_product = PyStr n_white, s_actual = Some 100, s_recorded = Some 100,
     s_note = PyNaN\<rparr>"

text \<open>A tracking row whose product cell reads white youlefen, 20 tons.\<close>

definition youle_row :: track_row where
  "youle_row = \<lparr>t_product = PyStr (n_white_youle @ [0x32, 0x30, c_dun]),
     t_container = PyNaN, t_ship = None, t_eta_port = None, t_eta_dest = None,
     t_warehouse = PyNaN, t_service = PyNone, t_carrier = PyNaN\<rparr>"

section \<open>Properties of normalize_product\<close>

lemma clean_targets: "map (\<lambda>n. clean (PyStr n)) TARGETS = TARGETS"
  by (simp add: TARGETS_def PREFERRED_ORDER_def clean_def SUFFIX_PATTERN_def seqs_def lit_def
      py_strip_def uni_space_def group_def)

lemma match_targets: "map (first_match RULES) TARGETS = map Some TARGETS"
  by (simp add: TARGETS_def PREFERRED_ORDER_def RULES_def seqs_def lit_def)

lemma normalize_targets: "t \<in> set TARGETS \<Longrightarrow> normalize_product (PyStr t) = Some t"
proof -
  assume t: "t \<in> set TARGETS"
  then obtain i where i: "i < length TARGETS" "TARGETS ! i = t"
    by (auto simp: in_set_conv_nth)
  have "clean (PyStr t) = t"
    using i nth_map [of i TARGETS "\<lambda>n. clean (PyStr n)"] clean_targets by simp
  moreover have "first_match RULES t = Some t"
    using i nth_map [of i TARGETS "first_match RULES"] nth_map [of i TARGETS Some] match_targets
    by simp
  ultimately show ?thesis by (simp add: normalize_product_def)
qed

lemma first_match_target: "first_match rs s = Some t \<Longrightarrow> t \<in> snd ` set rs"
  by (induction rs s rule: first_match.induct) (auto split: if_splits)

lemma rules_targets: "snd ` set RULES \<subseteq> set TARGETS"
  by (simp add: RULES_def TARGETS_def PREFERRED_ORDER_def)

lemma clean_None: "clean PyNone = [0x4E, 0x6F, 0x6E, 0x65]"
  by (simp add: clean_def SUFFIX_PATTERN_def seqs_def lit_def py_strip_def uni_space_def group_def)

lemma normalize_None: "normalize_product PyNone = None"
  unfolding normalize_product_def clean_None by (simp add: RULES_def seqs_def lit_def)

text \<open>
  Claim C4.  Each of the ten names of the preferred order is normalised to itself, and
  normalising the value that \<open>normalize_product\<close> returned (a target name, or
  \<open>None\<close>) gives the same result as normalising once, for every cell.
\<close>

theorem normalize_product_idempotent:
  "map (\<lambda>n. normalize_product (PyStr n)) PREFERRED_ORDER = map Some PREFERRED_ORDER \<and>
   normalize_product (result_val (normalize_product x)) = normalize_product x"
proof
  have "\<And>n. n \<in> set PREFERRED_ORDER \<Longrightarrow> normalize_product (PyStr n) = Some n"
    by (rule normalize_targets) (simp add: TARGETS_def)
  then show "map (\<lambda>n. normalize_product (PyStr n)) PREFERRED_ORDER = map Some PREFERRED_ORDER"
    by (simp cong: map_cong)
next
  show "normalize_product (result_val (normalize_product x)) = normalize_product x"
  proof (cases "normalize_product x")
    case None
    then show ?thesis by (simp add: normalize_None)
  next
    case (Some t)
    then have "t \<in> set TARGETS"
      using first_match_target rules_targets unfolding normalize_product_def by blast
    then show ?thesis using Some by (simp add: normalize_targets)
  qed
qed

theorem normalize_product_idempotent_witness:
  "normalize_product (PyStr n_gold2) = Some n_gold2 \<and>
   normalize_product (result_val (normalize_product (PyStr n_gold2))) = Some n_gold2"
proof -
  have a: "normalize_product (PyStr n_gold2) = Some n_gold2"
    using normalize_product_idempotent [of "PyStr n_gold2"]
    by (simp add: PREFERRED_ORDER_def)
  show ?thesis
    using a normalize_product_idempotent [of "PyStr n_gold2"] by simp
qed

section \<open>Dates\<close>

lemmas ymd_defs = ymd_def year_of_def month_of_def day_of_def mp_of_def doy_of_def yoe_of_def
  doe_of_def

lemma dec_numeral [simp]:
  "dec (numeral k) =
     (if (numeral k :: nat) < 10 then [0x30 + numeral k]
      else dec (numeral k div 10) @ [0x30 + numeral k mod 10])"
  by (rule dec.simps)

lemma dec_0 [simp]: "dec 0 = [0x30]"
  by (simp add: dec.simps)

lemma dec_1 [simp]: "dec (Suc 0) = [0x31]"
  by (simp add: dec.simps)

lemma ns_pos: "0 < NS_PER_DAY"
  by (simp add: NS_PER_DAY_def)

lemma to_datetime_date: "date_of (to_datetime d) = d"
  using ns_pos by (simp add: date_of_def to_datetime_def)

lemma date_of_normalize: "date_of (normalize t) = date_of t"
  using ns_pos by (simp add: date_of_def normalize_def)

lemma td_days_normalize: "td_days (normalize e - normalize s) = date_of e - date_of s"
proof -
  have "normalize e - normalize s = (date_of e - date_of s) * NS_PER_DAY"
    by (simp add: normalize_def date_of_def algebra_simps)
  then show ?thesis using ns_pos by (simp add: td_days_def)
qed

lemma date_of_plus_days: "date_of (t + n * NS_PER_DAY) = date_of t + n"
  using ns_pos by (simp add: date_of_def)

lemma today_le_iff: "to_datetime d \<le> t \<longleftrightarrow> d \<le> date_of t"
proof
  assume "to_datetime d \<le> t"
  then have "(d * NS_PER_DAY) div NS_PER_DAY \<le> t div NS_PER_DAY"
    unfolding to_datetime_def using ns_pos by (intro zdiv_mono1) auto
  then show "d \<le> date_of t" using ns_pos by (simp add: date_of_def)
next
  assume "d \<le> date_of t"
  then have "d * NS_PER_DAY \<le> (t div NS_PER_DAY) * NS_PER_DAY"
    unfolding date_of_def using ns_pos by (simp add: mult_right_mono)
  also have "\<dots> \<le> t"
    using ns_pos by (metis mult.commute pos_mod_sign add_le_cancel_left add.right_neutral
        mult_div_mod_eq)
  finally show "to_datetime d \<le> t" by (simp add: to_datetime_def)
qed

lemma ymd_0301:
  "strftime_ymd 19783 = [0x32, 0x30, 0x32, 0x34, 0x2D, 0x30, 0x33, 0x2D, 0x30, 0x31]"
  by (simp add: strftime_ymd_def ymd_defs zpad_def)

section \<open>The items in transit\<close>

text \<open>
  Claim C2.  Unless the table of items is empty (then the selection raises), the items
  in transit are exactly the items whose arrival at the destination is missing or falls
  on or after the day \<open>today\<close>, in their order; an item with a missing arrival is
  always among them.
\<close>

theorem intransit_df_selects:
  "intransit_df today items =
     (if items = [] then Inl KeyError
      else Inr (filter (\<lambda>r. case i_eta_dest r of None \<Rightarrow> True
                              | Some t \<Rightarrow> today \<le> date_of t) items))"
proof -
  have "in_transit (to_datetime today) r \<longleftrightarrow>
        (case i_eta_dest r of None \<Rightarrow> True | Some t \<Rightarrow> today \<le> date_of t)" for r
    by (cases "i_eta_dest r") (simp_all add: in_transit_def today_le_iff)
  then have "in_transit (to_datetime today) =
      (\<lambda>r. case i_eta_dest r of None \<Rightarrow> True | Some t \<Rightarrow> today \<le> date_of t)"
    by (intro ext)
  then show ?thesis by (simp add: intransit_df_def)
qed

theorem intransit_df_selects_witness:
  "intransit_df 19783
     [item0, item0\<lparr>i_eta_dest := Some (to_datetime 19783 + 1)\<rparr>,
      item0\<lparr>i_eta_dest := Some (to_datetime 19783 - 1)\<rparr>] =
   Inr [item0, item0\<lparr>i_eta_dest := Some (to_datetime 19783 + 1)\<rparr>]"
  using intransit_df_selects [of 19783
     "[item0, item0\<lparr>i_eta_dest := Some (to_datetime 19783 + 1)\<rparr>,
       item0\<lparr>i_eta_dest := Some (to_datetime 19783 - 1)\<rparr>]"]
  by (simp add: item0_def date_of_def to_datetime_def NS_PER_DAY_def)

section \<open>Shipment-date labels\<close>

text \<open>What \<open>label_for\<close> computes: a label exactly when the ship date and the port
  arrival are both known, with the whole days between the two dates.\<close>

lemma label_for_eq:
  "label_for r =
     (case (i_ship r, i_eta_port r) of
        (Some s, Some e) \<Rightarrow>
          Some (w_zhuanghuo_riqi @ strftime_ymd (date_of s) @ [0xFF08] @
                py_str_int (date_of e - date_of s) @ [0x5929, 0x5230, 0xFF09])
      | _ \<Rightarrow> None)"
  by (simp add: label_for_def or_ts_def truthy_ts_def td_days_normalize
      split: option.splits)

text \<open>
  Claim C7, at the input on which the code departs from it.  The item
  \<open>port_missing\<close> is in transit on 2024-03-01, has a ship date and an arrival at the
  destination but no port arrival.  The claim gives it the label of a four-day transit,
  through the fallback to the destination arrival; \<open>label_for\<close> gives it no label,
  because \<open>pd.NaT or x\<close> is \<open>pd.NaT\<close>.  With the port arrival present the label is
  the one expected.
\<close>

theorem label_for_port_missing:
  "in_transit (to_datetime 19783) port_missing \<and>
   label_for port_missing = None \<and>
   label_for (port_missing\<lparr>i_eta_port := Some (to_datetime 19787)\<rparr>) =
     Some (w_zhuanghuo_riqi @ [0x32, 0x30, 0x32, 0x34, 0x2D, 0x30, 0x33, 0x2D, 0x30, 0x31] @
           [0xFF08, 0x34, 0x5929, 0x5230, 0xFF09])"
proof (intro conjI)
  show "in_transit (to_datetime 19783) port_missing"
    by (simp add: port_missing_def item0_def in_transit_def to_datetime_def NS_PER_DAY_def)
  show "label_for port_missing = None"
    by (simp add: label_for_eq port_missing_def item0_def)
  show "label_for (port_missing\<lparr>i_eta_port := Some (to_datetime 19787)\<rparr>) =
     Some (w_zhuanghuo_riqi @ [0x32, 0x30, 0x32, 0x34, 0x2D, 0x30, 0x33, 0x2D, 0x30, 0x31] @
           [0xFF08, 0x34, 0x5929, 0x5230, 0xFF09])"
    by (simp add: label_for_eq port_missing_def item0_def to_datetime_date ymd_0301
        py_str_int_def)
qed

section \<open>The categories of extracted items\<close>

lemma youle_clean:
  "clean (PyStr (n_white_youle @ [0x32, 0x30, c_dun])) = n_white_youle @ [0x32, 0x30, c_dun]"
  by (simp add: clean_def SUFFIX_PATTERN_def seqs_def lit_def py_strip_def uni_space_def
      group_def)

lemma youle_norm:
  "normalize_product (PyStr (n_white_youle @ [0x32, 0x30, c_dun])) = Some n_white_youle"
  unfolding normalize_product_def youle_clean by (simp add: RULES_def seqs_def lit_def)

lemma youle_search:
  "re_search QTY_PATTERN (n_white_youle @ [0x32, 0x30, c_dun]) = Some [(1, [0x32, 0x30])]"
  by (simp add: QTY_PATTERN_def seqs_def lit_def uni_space_def)

lemma float20: "py_float [0x32, 0x30] = Some 20"
  by (simp add: py_float_def is_digits_def digits_val_def)

text \<open>
  Claim C9, at the input on which the code departs from it.  The row \<open>youle_row\<close>
  yields one item, of 20 tons, whose category is white youlefen: the target of the
  third rule, which is not one of the ten names of the preferred order.
\<close>

theorem split_emits_noncanonical:
  "split_product_items youle_row =
     Inr [\<lparr>i_container = PyNaN, i_raw_name = n_white_youle @ [0x32, 0x30, c_dun],
           i_product = n_white_youle, i_qty = 20, i_ship = None, i_eta_port = None,
           i_eta_dest = None, i_warehouse = PyNaN, i_carrier = PyNaN\<rparr>] \<and>
   n_white_youle \<notin> set PREFERRED_ORDER"
proof
  have s: "py_strip (n_white_youle @ [0x32, 0x30, c_dun]) = n_white_youle @ [0x32, 0x30, c_dun]"
    by (simp add: py_strip_def uni_space_def)
  show "split_product_items youle_row =
     Inr [\<lparr>i_container = PyNaN, i_raw_name = n_white_youle @ [0x32, 0x30, c_dun],
           i_product = n_white_youle, i_qty = 20, i_ship = None, i_eta_port = None,
           i_eta_dest = None, i_warehouse = PyNaN, i_carrier = PyNaN\<rparr>]"
    using s youle_norm youle_search float20
    by (simp add: split_product_items_def youle_row_def group_def py_or_def)
  show "n_white_youle \<notin> set PREFERRED_ORDER"
    by (simp add: PREFERRED_ORDER_def)
qed

section \<open>Calendar events of a product\<close>

lemma event_of_no_ship: "i_ship (r :: item) = None \<Longrightarrow> event_of ws we r = None"
  by (simp add: event_of_def)

lemma event_of_ship: "event_of ws we (r :: item) \<noteq> None \<Longrightarrow> i_ship r \<noteq> None"
  by (cases "i_ship r") (simp_all add: event_of_def)

lemma map_filter_filter:
  "(\<And>x. f x \<noteq> None \<Longrightarrow> P x) \<Longrightarrow>
   List.map_filter f (filter Q (filter P xs)) = List.map_filter f (filter Q xs)"
  by (induction xs) (auto split: option.splits)

lemma map_filter_none:
  "(\<And>x. x \<in> set xs \<Longrightarrow> f x = None) \<Longrightarrow> List.map_filter f xs = []"
  by (induction xs) auto

text \<open>
  Claim C10.  An item with no ship date produces no calendar event, whatever its arrival
  dates and the window: the events of a product are those of its items that have a ship
  date, and a table of items none of which has a ship date has no events.  The default
  of seven days after the ship date replaces a missing arrival only (lemma
  \<open>event_of_no_dest\<close> below).
\<close>

theorem make_events_drops_missing_ship:
  "make_events_for_product xs p ws d =
     make_events_for_product (filter (\<lambda>r. i_ship r \<noteq> None) xs) p ws d \<and>
   make_events_for_product (map (\<lambda>r. r\<lparr>i_ship := None\<rparr>) xs) p ws d = []"
proof
  show "make_events_for_product xs p ws d =
     make_events_for_product (filter (\<lambda>r. i_ship r \<noteq> None) xs) p ws d"
    unfolding make_events_for_product_def Let_def
    by (rule map_filter_filter [symmetric]) (rule event_of_ship)
  show "make_events_for_product (map (\<lambda>r. r\<lparr>i_ship := None\<rparr>) xs) p ws d = []"
    unfolding make_events_for_product_def Let_def
    by (rule map_filter_none) (auto simp add: event_of_no_ship)
qed

text \<open>The event of an item that has a ship date and an arrival at the destination: the
  interval between the two dates clipped to the window, no event when the clipped
  interval is empty, and the number of days of the whole interval.\<close>

lemma event_of_arrival:
  "event_of ws we (r\<lparr>i_ship := Some s, i_eta_dest := Some e\<rparr>) =
     (if max (date_of s) ws > min (date_of e) we then None
      else Some \<lparr>e_start = max (date_of s) ws, e_end = min (date_of e) we,
                 e_datestr = strftime_ymd (date_of s) @ [0x20, 0x7E, 0x20] @
                             strftime_ymd (date_of e),
                 e_days = date_of e - date_of s + 1,
                 e_qty = i_qty r,
                 e_carrier = py_or (i_carrier r) (PyStr []),
                 e_warehouse = py_or (i_warehouse r) (PyStr []),
                 e_container = py_or (i_container r) (PyStr [])\<rparr>)"
  by (simp add: event_of_def or_ts_def truthy_ts_def date_of_normalize Let_def)

text \<open>The event of an item that has a ship date and no arrival at the destination: the
  interval ends seven days after the ship date, whatever the arrival at the port.\<close>

lemma event_of_no_dest:
  "event_of ws we (r\<lparr>i_ship := Some s, i_eta_dest := None\<rparr>) =
     (if max (date_of s) ws > min (date_of s + 7) we then None
      else Some \<lparr>e_start = max (date_of s) ws, e_end = min (date_of s + 7) we,
                 e_datestr = strftime_ymd (date_of s) @ [0x20, 0x7E, 0x20] @
                             strftime_ymd (date_of s + 7),
                 e_days = 8,
                 e_qty = i_qty r,
                 e_carrier = py_or (i_carrier r) (PyStr []),
                 e_warehouse = py_or (i_warehouse r) (PyStr []),
                 e_container = py_or (i_container r) (PyStr [])\<rparr>)"
  by (simp add: event_of_def or_ts_def truthy_ts_def date_of_normalize date_of_plus_days Let_def)

lemma ymd_0101:
  "strftime_ymd 19723 = [0x32, 0x30, 0x32, 0x34, 0x2D, 0x30, 0x31, 0x2D, 0x30, 0x31]"
  by (simp add: strftime_ymd_def ymd_defs zpad_def)

lemma ymd_0108:
  "strftime_ymd 19730 = [0x32, 0x30, 0x32, 0x34, 0x2D, 0x30, 0x31, 0x2D, 0x30, 0x38]"
  by (simp add: strftime_ymd_def ymd_defs zpad_def)

lemma ymd_0110:
  "strftime_ymd 19732 = [0x32, 0x30, 0x32, 0x34, 0x2D, 0x30, 0x31, 0x2D, 0x31, 0x30]"
  by (simp add: strftime_ymd_def ymd_defs zpad_def)


text \<open>
  Claim C6, at the input on which the code departs from it.  The item \<open>port_only\<close>
  was shipped on 2024-01-01 and arrives at the port on 2024-01-10; its arrival at the
  destination is missing, so its effective arrival is 2024-01-10.  Under the window of
  three days from 2024-01-05 the code yields one segment over those three days, but for
  the interval 2024-01-01 ~ 2024-01-08 of 8 days, the default of seven days after the
  ship date: \<open>pd.NaT or x\<close> is \<open>pd.NaT\<close>, and the port arrival is never
  consulted.  With the arrival at the destination set to 2024-01-10 the segment and
  the 10 days are those of the claim.
\<close>

theorem make_events_port_fallback:
  "make_events_for_product [port_only] n_white 19727 3 =
     [\<lparr>e_start = 19727, e_end = 19729,
       e_datestr = [0x32, 0x30, 0x32, 0x34, 0x2D, 0x30, 0x31, 0x2D, 0x30, 0x31] @
                   [0x20, 0x7E, 0x20] @
                   [0x32, 0x30, 0x32, 0x34, 0x2D, 0x30, 0x31, 0x2D, 0x30, 0x38],
       e_days = 8, e_qty = 20, e_carrier = PyNaN, e_warehouse = PyNaN,
       e_container = PyNaN\<rparr>] \<and>
   make_events_for_product [port_only\<lparr>i_eta_dest := Some (to_datetime 19732)\<rparr>]
       n_white 19727 3 =
     [\<lparr>e_start = 19727, e_end = 19729,
       e_datestr = [0x32, 0x30, 0x32, 0x34, 0x2D, 0x30, 0x31, 0x2D, 0x30, 0x31] @
                   [0x20, 0x7E, 0x20] @
                   [0x32, 0x30, 0x32, 0x34, 0x2D, 0x30, 0x31, 0x2D, 0x31, 0x30],
       e_days = 10, e_qty = 20, e_carrier = PyNaN, e_warehouse = PyNaN,
       e_container = PyNaN\<rparr>]"
proof
  show "make_events_for_product [port_only] n_white 19727 3 =
     [\<lparr>e_start = 19727, e_end = 19729,
       e_datestr = [0x32, 0x30, 0x32, 0x34, 0x2D, 0x30, 0x31, 0x2D, 0x30, 0x31] @
                   [0x20, 0x7E, 0x20] @
                   [0x32, 0x30, 0x32, 0x34, 0x2D, 0x30, 0x31, 0x2D, 0x30, 0x38],
       e_days = 8, e_qty = 20, e_carrier = PyNaN, e_warehouse = PyNaN,
       e_container = PyNaN\<rparr>]"
    by (simp add: make_events_for_product_def event_of_def port_only_def item0_def or_ts_def
        truthy_ts_def date_of_normalize date_of_plus_days to_datetime_date Let_def ymd_0101
        ymd_0108 py_or_def)
  show "make_events_for_product [port_only\<lparr>i_eta_dest := Some (to_datetime 19732)\<rparr>]
       n_white 19727 3 =
     [\<lparr>e_start = 19727, e_end = 19729,
       e_datestr = [0x32, 0x30, 0x32, 0x34, 0x2D, 0x30, 0x31, 0x2D, 0x30, 0x31] @
                   [0x20, 0x7E, 0x20] @
                   [0x32, 0x30, 0x32, 0x34, 0x2D, 0x30, 0x31, 0x2D, 0x31, 0x30],
       e_days = 10, e_qty = 20, e_carrier = PyNaN, e_warehouse = PyNaN,
       e_container = PyNaN\<rparr>]"
    by (simp add: make_events_for_product_def event_of_def port_only_def item0_def or_ts_def
        truthy_ts_def date_of_normalize to_datetime_date Let_def ymd_0101 ymd_0110 py_or_def)
qed

section \<open>Colours of the carriers\<close>

lemma set_carrier_names: "set (carrier_names xs) = {c. PyStr c \<in> i_carrier ` set xs}"
  by (induction xs) (auto split: pyval.splits)

lemma sort_carriers: "sort (carriers xs) = sorted_list_of_set (set (carrier_names xs))"
  unfolding carriers_def unique_def
  by (rule sorted_distinct_set_unique) simp_all

lemma color_map_eq:
  "color_map xs =
     (let cs = sorted_list_of_set (set (carrier_names xs)) in
      map (\<lambda>i. (cs ! i, PALETTE ! (i mod length PALETTE))) [0..<length cs])"
  by (simp add: color_map_def sort_carriers)

lemma map_fst_indexed: "map fst (map (\<lambda>i. (cs ! i, f i)) [0..<length cs]) = cs"
  by (simp add: o_def map_nth)

lemma color_map_keys: "fst ` set (color_map xs) = set (carrier_names xs)"
proof -
  have "map fst (color_map xs) = sorted_list_of_set (set (carrier_names xs))"
    unfolding color_map_eq Let_def by (rule map_fst_indexed)
  then have "set (map fst (color_map xs)) = set (carrier_names xs)"
    by simp
  then show ?thesis by simp
qed

text \<open>
  Claim C8.  The colour map is a function of the set of the carriers present (missing
  cells dropped) among the items in transit: two item tables with the same set of
  carriers, and so the same rows in any order, get the same map; the map gives the
  \<open>i\<close>-th carrier in sorted order the palette entry \<open>i mod length PALETTE\<close>; a
  bar whose carrier is missing, or is not a carrier of the map, gets the default
  colour \<open>#e8e8e8\<close>.
\<close>

theorem color_map_by_carrier_set:
  "(set (carrier_names ys) = set (carrier_names xs) \<longrightarrow> color_map ys = color_map xs) \<and>
   (set ys = set xs \<longrightarrow> color_map ys = color_map xs) \<and>
   color_map xs =
     (let cs = sorted_list_of_set (set (carrier_names xs)) in
      map (\<lambda>i. (cs ! i, PALETTE ! (i mod length PALETTE))) [0..<length cs]) \<and>
   bar_color (color_map xs) (ev\<lparr>e_carrier := PyNaN\<rparr>) = ''#e8e8e8'' \<and>
   (c \<notin> set (carrier_names xs) \<longrightarrow> bar_color (color_map xs) (ev\<lparr>e_carrier := PyStr c\<rparr>) = ''#e8e8e8'')"
proof (intro conjI impI)
  show "color_map ys = color_map xs" if "set (carrier_names ys) = set (carrier_names xs)"
    using that by (simp add: color_map_eq)
  show "color_map ys = color_map xs" if "set ys = set xs"
    using that by (simp add: color_map_eq set_carrier_names)
  show "color_map xs =
     (let cs = sorted_list_of_set (set (carrier_names xs)) in
      map (\<lambda>i. (cs ! i, PALETTE ! (i mod length PALETTE))) [0..<length cs])"
    by (rule color_map_eq)
  show "bar_color (color_map xs) (ev\<lparr>e_carrier := PyNaN\<rparr>) = ''#e8e8e8''"
    by (simp add: bar_color_def color_get_def)
  show "bar_color (color_map xs) (ev\<lparr>e_carrier := PyStr c\<rparr>) = ''#e8e8e8''"
    if "c \<notin> set (carrier_names xs)"
  proof -
    have "map_of (color_map xs) c = None"
      using that by (simp add: map_of_eq_None_iff color_map_keys)
    then show ?thesis by (simp add: bar_color_def color_get_def)
  qed
qed


theorem color_map_by_carrier_set_witness:
  "color_map [carrier_A, item0, carrier_B, carrier_A] = color_map [carrier_B, carrier_A, item0] \<and>
   color_map [carrier_B, carrier_A, item0] = [([0x41], ''#FAD7A0''), ([0x42], ''#AED6F1'')] \<and>
   bar_color (color_map [carrier_B, carrier_A, item0])
     \<lparr>e_start = 0, e_end = 0, e_datestr = [], e_days = 1, e_qty = 20, e_carrier = PyStr [0x43],
      e_warehouse = PyNaN, e_container = PyNaN\<rparr> = ''#e8e8e8''"
proof -
  have names: "carrier_names [carrier_A, item0, carrier_B, carrier_A] = [[0x41], [0x42], [0x41]]"
    "carrier_names [carrier_B, carrier_A, item0] = [[0x42], [0x41]]"
    by (simp_all add: carrier_A_def carrier_B_def item0_def)
  have "color_map [carrier_B, carrier_A, item0] = [([0x41], ''#FAD7A0''), ([0x42], ''#AED6F1'')]"
    unfolding color_map_def carriers_def unique_def names by (simp add: PALETTE_def)
  then have cm: "color_map [carrier_B, carrier_A, item0] = [([0x41], ''#FAD7A0''), ([0x42], ''#AED6F1'')]" .
  have h1: "set (carrier_names [carrier_A, item0, carrier_B, carrier_A]) =
      set (carrier_names [carrier_B, carrier_A, item0])"
    unfolding names by auto
  have h2: "[0x43] \<notin> set (carrier_names [carrier_B, carrier_A, item0])"
    unfolding names by simp
  note t = color_map_by_carrier_set [of "[carrier_A, item0, carrier_B, carrier_A]"
      "[carrier_B, carrier_A, item0]"
      "\<lparr>e_start = 0, e_end = 0, e_datestr = [], e_days = 1, e_qty = 20, e_carrier = PyNaN,
        e_warehouse = PyNaN, e_container = PyNaN\<rparr>" "[0x43]"]
  from t h1 have a: "color_map [carrier_A, item0, carrier_B, carrier_A] =
      color_map [carrier_B, carrier_A, item0]"
    by blast
  from t h2 have b: "bar_color (color_map [carrier_B, carrier_A, item0])
     (\<lparr>e_start = 0, e_end = 0, e_datestr = [], e_days = 1, e_qty = 20, e_carrier = PyNaN,
       e_warehouse = PyNaN, e_container = PyNaN\<rparr>\<lparr>e_carrier := PyStr [0x43]\<rparr>) = ''#e8e8e8''"
    by blast
  from a b cm show ?thesis by simp
qed

section \<open>The projection at the cutoff\<close>

lemma map_of_tabulate:
  "map_of (map (\<lambda>p. (p, f p)) ks) p = (if p \<in> set ks then Some (f p) else None)"
  by (induction ks) auto

lemma qty_sum_absent: "p \<notin> set (group_keys xs) \<Longrightarrow> qty_sum p xs = 0"
proof -
  assume "p \<notin> set (group_keys xs)"
  then have "filter (\<lambda>r. i_product r = p) xs = []"
    by (auto simp add: group_keys_def filter_empty_conv)
  then show ?thesis by (simp add: qty_sum_def)
qed

lemma lookup0_arrive:
  "lookup0 (arrive_by_cutoff c xs) p =
     qty_sum p (filter (\<lambda>r. le_ts (eta_col r) (to_datetime c)) xs)"
  by (simp add: lookup0_def arrive_by_cutoff_def Let_def map_of_tabulate qty_sum_absent)

lemma lookup0_intransit: "lookup0 (intransit_sum xs) p = qty_sum p xs"
  by (simp add: lookup0_def intransit_sum_def map_of_tabulate qty_sum_absent)

lemma projected_eq:
  "r_projected (summary_row_of st xs c p) =
     r_actual (summary_row_of st xs c p) +
     qty_sum p (filter (\<lambda>r. le_ts (eta_col r) (to_datetime c)) xs)"
  "r_in_transit (summary_row_of st xs c p) = qty_sum p xs"
  "r_product (summary_row_of st xs c p) = p"
  by (simp_all add: summary_row_of_def Let_def lookup0_arrive lookup0_intransit)

lemma py_float_nonneg: "py_float t = Some q \<Longrightarrow> 0 \<le> q"
  by (auto simp add: py_float_def Let_def split: if_splits)

lemma split_parts_nonneg:
  "split_parts row parts = Inr items \<Longrightarrow> r \<in> set items \<Longrightarrow> 0 \<le> i_qty r"
proof (induction parts arbitrary: items)
  case Nil
  then show ?case by simp
next
  case (Cons p0 parts)
  then show ?case
    by (auto simp add: Let_def py_float_nonneg split: option.splits sum.splits)
qed

lemma item_rows_nonneg:
  "item_rows track = Inr items \<Longrightarrow> r \<in> set items \<Longrightarrow> 0 \<le> i_qty r"
proof (induction track arbitrary: items)
  case Nil
  then show ?case by simp
next
  case (Cons t track)
  then show ?case
    by (auto simp add: split_product_items_def split: sum.splits dest: split_parts_nonneg)
qed

lemma intransit_nonneg:
  "item_rows track = Inr items \<Longrightarrow> intransit_df today items = Inr xs \<Longrightarrow>
   r \<in> set xs \<Longrightarrow> 0 \<le> i_qty r"
  by (auto simp add: intransit_df_def split: if_splits dest: item_rows_nonneg)

lemma insort_key_map:
  "insort_key k (f x) (map f xs) = map f (insort_key (\<lambda>y. k (f y)) x xs)"
  by (induction xs) auto

lemma sort_key_map: "sort_key k (map f xs) = map f (sort_key (\<lambda>y. k (f y)) xs)"
  by (induction xs) (auto simp add: insort_key_map)

lemma summary_rows_eq:
  "summary_rows stock xs c =
     map (summary_row_of (stock_df stock) xs c)
       (sort_key (\<lambda>p. (order_key p, p))
          (filter (\<lambda>p. p \<in> set PREFERRED_ORDER)
             (sort (remdups (map g_product (stock_df stock) @ group_keys (labelled xs))))))"
  by (simp add: summary_rows_def Let_def filter_map o_def sort_key_map projected_eq(3))

lemma white20_clean:
  "clean (PyStr (n_white @ [0x32, 0x30, c_dun])) = n_white @ [0x32, 0x30, c_dun]"
  by (simp add: clean_def SUFFIX_PATTERN_def seqs_def lit_def py_strip_def uni_space_def
      group_def)

lemma white20_norm:
  "normalize_product (PyStr (n_white @ [0x32, 0x30, c_dun])) = Some n_white"
  unfolding normalize_product_def white20_clean by (simp add: RULES_def seqs_def lit_def)

lemma white20_search:
  "re_search QTY_PATTERN (n_white @ [0x32, 0x30, c_dun]) = Some [(1, [0x32, 0x30])]"
  by (simp add: QTY_PATTERN_def seqs_def lit_def uni_space_def)

lemma white20_items:
  "item_rows [late_row\<lparr>t_eta_dest := Some t\<rparr>] =
     Inr [\<lparr>i_container = PyNaN, i_raw_name = n_white @ [0x32, 0x30, c_dun],
           i_product = n_white, i_qty = 20, i_ship = None, i_eta_port = None,
           i_eta_dest = Some t, i_warehouse = PyNaN, i_carrier = PyNaN\<rparr>]"
proof -
  have s: "py_strip (n_white @ [0x32, 0x30, c_dun]) = n_white @ [0x32, 0x30, c_dun]"
    by (simp add: py_strip_def uni_space_def)
  show ?thesis
    using s white20_norm white20_search float20
    by (simp add: split_product_items_def late_row_def group_def py_or_def)
qed

lemma white_stock:
  "stock_df [stock_white] =
     [\<lparr>g_product = n_white, g_actual = 100, g_recorded = 100, g_note = []\<rparr>]"
proof -
  have "normalize_product (PyStr n_white) = Some n_white"
    by (rule normalize_targets) (simp add: TARGETS_def PREFERRED_ORDER_def)
  then have n: "stock_name (PyStr n_white) = n_white"
    by (simp add: stock_name_def)
  have m: "n_white \<in> set PREFERRED_ORDER"
    by (simp add: PREFERRED_ORDER_def)
  show ?thesis
    by (simp add: stock_df_def stock_white_def n m nan_sum_def join_notes_def)
qed


lemma white_rows:
  "summary_rows [stock_white]
     [\<lparr>i_container = PyNaN, i_raw_name = raw,
       i_product = n_white, i_qty = 20, i_ship = None, i_eta_port = None,
       i_eta_dest = Some t, i_warehouse = PyNaN, i_carrier = PyNaN\<rparr>] c =
     [\<lparr>r_product = n_white, r_actual = 100, r_labels = [], r_in_transit = 20,
       r_arrive = (if t \<le> to_datetime c then 20 else 0),
       r_projected = 100 + (if t \<le> to_datetime c then 20 else 0),
       r_recorded = 100, r_note = []\<rparr>]"
proof -
  have m: "n_white \<in> set PREFERRED_ORDER"
    by (simp add: PREFERRED_ORDER_def)
  have l: "labelled [\<lparr>i_container = PyNaN, i_raw_name = raw,
       i_product = n_white, i_qty = 20, i_ship = None, i_eta_port = None,
       i_eta_dest = Some t, i_warehouse = PyNaN, i_carrier = PyNaN\<rparr>] = []"
    by (simp add: labelled_def label_for_eq)
  have k: "lab_columns [\<lparr>i_container = PyNaN, i_raw_name = raw,
       i_product = n_white, i_qty = 20, i_ship = None, i_eta_port = None,
       i_eta_dest = Some t, i_warehouse = PyNaN, i_carrier = PyNaN\<rparr>] = []"
    by (simp add: lab_columns_def label_for_eq)
  show ?thesis
    unfolding summary_rows_eq white_stock l
    by (simp add: m group_keys_def summary_row_of_def k lookup0_arrive lookup0_intransit
        qty_sum_def eta_col_def)
qed

lemma white_summary:
  "to_datetime 19783 \<le> t \<Longrightarrow>
   summary_df [stock_white] [late_row\<lparr>t_eta_dest := Some t\<rparr>] 19783 c =
     Inr [\<lparr>r_product = n_white, r_actual = 100, r_labels = [], r_in_transit = 20,
           r_arrive = (if t \<le> to_datetime c then 20 else 0),
           r_projected = 100 + (if t \<le> to_datetime c then 20 else 0),
           r_recorded = 100, r_note = []\<rparr>]"
  unfolding summary_df_def white20_items
  by (simp add: intransit_df_def in_transit_def white_rows)

text \<open>
  Claim C1, at the input on which the code departs from it.  The stock holds 100 tons of
  the plain white product and one item of 20 tons is in transit on 2024-03-01; its
  arrival at the destination is 2024-03-10 at 14:00, a timestamp whose date is the
  cutoff date 2024-03-10.  The claim counts the item, for a projection of 120; the code
  compares the timestamp with midnight of the cutoff day and leaves it out: the
  projection is 100, with 20 in transit.  The same arrival at midnight is counted.
\<close>

theorem summary_df_cutoff_day:
  "summary_df [stock_white] [late_row] 19783 19792 =
     Inr [\<lparr>r_product = n_white, r_actual = 100, r_labels = [], r_in_transit = 20,
           r_arrive = 0, r_projected = 100, r_recorded = 100, r_note = []\<rparr>] \<and>
   map_option date_of (t_eta_dest late_row) = Some 19792 \<and>
   summary_df [stock_white] [late_row\<lparr>t_eta_dest := Some (to_datetime 19792)\<rparr>] 19783 19792 =
     Inr [\<lparr>r_product = n_white, r_actual = 100, r_labels = [], r_in_transit = 20,
           r_arrive = 20, r_projected = 120, r_recorded = 100, r_note = []\<rparr>]"
proof (intro conjI)
  have "late_row\<lparr>t_eta_dest := Some (to_datetime 19792 + 50400000000000)\<rparr> = late_row"
    by (simp add: late_row_def)
  then show "summary_df [stock_white] [late_row] 19783 19792 =
     Inr [\<lparr>r_product = n_white, r_actual = 100, r_labels = [], r_in_transit = 20,
           r_arrive = 0, r_projected = 100, r_recorded = 100, r_note = []\<rparr>]"
    using white_summary [of "to_datetime 19792 + 50400000000000" 19792]
    by (simp add: to_datetime_def NS_PER_DAY_def)
  show "map_option date_of (t_eta_dest late_row) = Some 19792"
    by (simp add: late_row_def to_datetime_def date_of_def NS_PER_DAY_def)
  show "summary_df [stock_white] [late_row\<lparr>t_eta_dest := Some (to_datetime 19792)\<rparr>] 19783 19792 =
     Inr [\<lparr>r_product = n_white, r_actual = 100, r_labels = [], r_in_transit = 20,
           r_arrive = 20, r_projected = 120, r_recorded = 100, r_note = []\<rparr>]"
    using white_summary [of "to_datetime 19792" 19792]
    by (simp add: to_datetime_def NS_PER_DAY_def)
qed

section \<open>The order of the rules\<close>


























end
